theory Spec2Isabelle
  imports Main
begin

section \<open>JavaScript values and errors\<close>

text \<open>
  The payloads of the remote service are typed \<open>any\<close> in the client: they are modelled
  as JSON values, with \<open>undefined\<close> for a missing property. Numbers are integers.
  An object is an association list with distinct keys.
\<close>

datatype json =
    JUndefined
  | JNull
  | JBool bool
  | JNum int
  | JStr string
  | JArr "json list"
  | JObj "(string \<times> json) list"

text \<open>What a \<open>throw\<close> or a rejected promise carries. \<open>Error\<close> is the plain class.\<close>

datatype js_error =
    Error string
  | TypeError string
  | SyntaxError string
  | TaskSkippedError string

fun message :: "js_error \<Rightarrow> string" where
  "message (Error m) = m"
| "message (TypeError m) = m"
| "message (SyntaxError m) = m"
| "message (TaskSkippedError m) = m"

text \<open>\<open>Error.prototype.toString\<close>: the name of the class, a colon, the message.\<close>

fun error_toString :: "js_error \<Rightarrow> string" where
  "error_toString (Error m) = ''Error: '' @ m"
| "error_toString (TypeError m) = ''TypeError: '' @ m"
| "error_toString (SyntaxError m) = ''SyntaxError: '' @ m"
| "error_toString (TaskSkippedError m) = ''Error: '' @ m"

text \<open>Truthiness, as \<open>!x\<close>, \<open>x && y\<close> and \<open>if (x)\<close> read it.\<close>

fun truthy :: "json \<Rightarrow> bool" where
  "truthy JUndefined = False"
| "truthy JNull = False"
| "truthy (JBool b) = b"
| "truthy (JNum n) = (n \<noteq> 0)"
| "truthy (JStr s) = (s \<noteq> [])"
| "truthy (JArr xs) = True"
| "truthy (JObj kvs) = True"

text \<open>
  Property access \<open>v[k]\<close> and \<open>v.k\<close>, for the keys the client reads (none of them is a
  member of a prototype): a TypeError on \<open>null\<close> and \<open>undefined\<close>, the stored value on
  an object, \<open>undefined\<close> where the property is missing.
\<close>

fun get_prop :: "json \<Rightarrow> string \<Rightarrow> js_error + json" where
  "get_prop JUndefined k = Inl (TypeError (''Cannot read property '' @ k @ '' of undefined''))"
| "get_prop JNull k = Inl (TypeError (''Cannot read property '' @ k @ '' of null''))"
| "get_prop (JObj kvs) k = Inr (case map_of kvs k of None \<Rightarrow> JUndefined | Some v \<Rightarrow> v)"
| "get_prop v k = Inr JUndefined"

text \<open>Conversion to a string, as \<open>+\<close> with a string and a template literal do it.\<close>

definition digit_char :: "nat \<Rightarrow> char" where
  "digit_char d = char_of (48 + d)"

fun nat_toString :: "nat \<Rightarrow> string" where
  "nat_toString n =
     (if n < 10 then [digit_char n] else nat_toString (n div 10) @ [digit_char (n mod 10)])"

definition int_toString :: "int \<Rightarrow> string" where
  "int_toString i = (if i < 0 then ''-'' @ nat_toString (nat (- i)) else nat_toString (nat i))"

fun join_comma :: "string list \<Rightarrow> string" where
  "join_comma [] = []"
| "join_comma [s] = s"
| "join_comma (s # t # ss) = s @ '','' @ join_comma (t # ss)"

fun toStr :: "json \<Rightarrow> string" where
  "toStr JUndefined = ''undefined''"
| "toStr JNull = ''null''"
| "toStr (JBool b) = (if b then ''true'' else ''false'')"
| "toStr (JNum n) = int_toString n"
| "toStr (JStr s) = s"
| "toStr (JArr xs) =
     join_comma (map (\<lambda>x. if x = JUndefined \<or> x = JNull then [] else toStr x) xs)"
| "toStr (JObj kvs) = ''[object Object]''"

text \<open>
  \<open>for (const x of v)\<close>: an array gives its elements, a string its characters, anything
  else is not iterable.
\<close>

fun js_iterate :: "json \<Rightarrow> js_error + json list" where
  "js_iterate (JArr xs) = Inr xs"
| "js_iterate (JStr s) = Inr (map (\<lambda>c. JStr [c]) s)"
| "js_iterate v = Inl (TypeError ''allProjects is not iterable'')"

section \<open>The client, its configuration and its collaborators\<close>

datatype SourceLocationType = REMOTE_REPOSITORY | LOCAL_DIRECTORY

record RemoteRepositoryInfo =
  url :: string

text \<open>The fields of \<open>ScaConfig\<close> that the client reads after login.\<close>

record ScaConfig =
  webAppUrl :: string
  sourceLocationType :: SourceLocationType
  remoteRepositoryInfo :: "RemoteRepositoryInfo option"
  dependencyFileExtension :: string
  dependencyFolderExclusion :: string

datatype level = Debug | Info | Warning

text \<open>
  What leaves the process: a GET or a POST through \<open>HttpClient\<close>, and the \<open>curl\<close>
  command that \<open>uploadToAWS\<close> runs with \<open>child_process.execSync\<close>.
\<close>

datatype request = HttpGet string | HttpPost string json | ExecSync string

text \<open>
  The mutable fields of \<open>ScaClient\<close>, with what it wrote to its logger and the
  requests it issued, oldest first.
\<close>

record client =
  projectId :: json
  scanId :: json
  stopwatch_started :: bool
  logged :: "(level \<times> string) list"
  calls :: "request list"

text \<open>
  The collaborators whose code is outside the client: the transport (the answer to a
  request may depend on the requests before it), the zipper (extension filter, folder
  exclusion, source directory, archive name; it returns the file count), the temporary
  name, \<open>String.prototype.match\<close> (subject, pattern; an invalid pattern throws) and the
  string values of the enum \<open>SourceLocationType\<close>.
\<close>

record env =
  respond :: "request list \<Rightarrow> request \<Rightarrow> js_error + json"
  zipDirectory :: "string \<Rightarrow> string \<Rightarrow> string \<Rightarrow> string \<Rightarrow> js_error + nat"
  tmpNameSync :: "string \<Rightarrow> string \<Rightarrow> js_error + string"
  string_match :: "string \<Rightarrow> string \<Rightarrow> js_error + bool"
  locationTypeValue :: "SourceLocationType \<Rightarrow> string"

text \<open>The state of a client after its constructor.\<close>

definition new_client :: client where
  "new_client =
     \<lparr>projectId = JStr [], scanId = JStr [], stopwatch_started = False, logged = [], calls = []\<rparr>"

subsection \<open>Methods as state transformers that may throw\<close>

type_synonym 'a action = "client \<Rightarrow> (js_error + 'a) \<times> client"

definition ok :: "'a \<Rightarrow> 'a action" where
  "ok x s = (Inr x, s)"

definition raise :: "js_error \<Rightarrow> 'a action" where
  "raise err s = (Inl err, s)"

definition lift :: "js_error + 'a \<Rightarrow> 'a action" where
  "lift r s = (r, s)"

definition andThen :: "'a action \<Rightarrow> ('a \<Rightarrow> 'b action) \<Rightarrow> 'b action" where
  "andThen m f s = (case m s of (Inl err, s') \<Rightarrow> (Inl err, s') | (Inr x, s') \<Rightarrow> f x s')"

definition seq :: "unit action \<Rightarrow> 'b action \<Rightarrow> 'b action" where
  "seq m n = andThen m (\<lambda>_. n)"

definition try_catch :: "'a action \<Rightarrow> (js_error \<Rightarrow> 'a action) \<Rightarrow> 'a action" where
  "try_catch m h s = (case m s of (Inl err, s') \<Rightarrow> h err s' | (Inr x, s') \<Rightarrow> (Inr x, s'))"

definition with_client :: "(client \<Rightarrow> 'a action) \<Rightarrow> 'a action" where
  "with_client f s = f s s"

definition log_at :: "level \<Rightarrow> string \<Rightarrow> unit action" where
  "log_at l m s = (Inr (), s\<lparr>logged := logged s @ [(l, m)]\<rparr>)"

definition send :: "env \<Rightarrow> request \<Rightarrow> json action" where
  "send e r s = (respond e (calls s) r, s\<lparr>calls := calls s @ [r]\<rparr>)"

definition getRequest :: "env \<Rightarrow> string \<Rightarrow> json action" where
  "getRequest e path = send e (HttpGet path)"

definition postRequest :: "env \<Rightarrow> string \<Rightarrow> json \<Rightarrow> json action" where
  "postRequest e path body = send e (HttpPost path body)"

definition execSync :: "env \<Rightarrow> string \<Rightarrow> unit action" where
  "execSync e command = andThen (send e (ExecSync command)) (\<lambda>_. ok ())"

subsection \<open>Endpoints\<close>

definition PROJECTS :: string where
  "PROJECTS = ''/risk-management/projects''"

definition ZIP_UPLOAD :: string where
  "ZIP_UPLOAD = ''/api/uploads''"

definition CREATE_SCAN :: string where
  "CREATE_SCAN = ''/api/scans''"

section \<open>Project resolution\<close>

definition getAllProjects :: "env \<Rightarrow> json action" where
  "getAllProjects e = getRequest e PROJECTS"

text \<open>
  \<open>project.name.match(projectName)\<close>: reading \<open>name\<close> throws on a null project,
  \<open>match\<close> exists on strings only, and its result is an array or \<open>null\<close>.
\<close>

definition name_matches :: "env \<Rightarrow> json \<Rightarrow> string \<Rightarrow> js_error + bool" where
  "name_matches e project projectName =
     (case get_prop project ''name'' of
        Inl err \<Rightarrow> Inl err
      | Inr (JStr n) \<Rightarrow> string_match e n projectName
      | Inr JUndefined \<Rightarrow> Inl (TypeError ''Cannot read property match of undefined'')
      | Inr JNull \<Rightarrow> Inl (TypeError ''Cannot read property match of null'')
      | Inr _ \<Rightarrow> Inl (TypeError ''project.name.match is not a function''))"

text \<open>The \<open>for\<close> loop of \<open>getProjectIdByName\<close>, with its \<open>break\<close>.\<close>

fun search_projects :: "env \<Rightarrow> string \<Rightarrow> json list \<Rightarrow> unit action" where
  "search_projects e projectName [] = ok ()"
| "search_projects e projectName (project # rest) =
     andThen (lift (name_matches e project projectName))
       (\<lambda>matched.
          if matched
          then andThen (lift (get_prop project ''id'')) (\<lambda>i s. (Inr (), s\<lparr>projectId := i\<rparr>))
          else search_projects e projectName rest)"

definition getProjectIdByName :: "env \<Rightarrow> string \<Rightarrow> unit action" where
  "getProjectIdByName e projectName =
     (if projectName = []
      then raise (Error ''Non-empty project name must be provided.'')
      else andThen (getAllProjects e)
             (\<lambda>allProjects. andThen (lift (js_iterate allProjects))
                (search_projects e projectName)))"

definition createProject :: "env \<Rightarrow> string \<Rightarrow> json action" where
  "createProject e projectName =
     andThen (postRequest e PROJECTS (JObj [(''name'', JStr projectName)]))
       (\<lambda>newProject. lift (get_prop newProject ''id''))"

definition resolveProject :: "env \<Rightarrow> string \<Rightarrow> unit action" where
  "resolveProject e projectName =
     seq (log_at Info (''Resolving project by name: '' @ projectName))
    (seq (getProjectIdByName e projectName)
    (with_client (\<lambda>s0.
       if \<not> truthy (projectId s0)
       then seq (log_at Info ''Project not found, creating a new one.'')
           (andThen (createProject e projectName)
              (\<lambda>i. seq (\<lambda>s. (Inr (), s\<lparr>projectId := i\<rparr>))
                 (log_at Info (''Created a project with ID: '' @ toStr i))))
       else log_at Info (''Project already exists with ID: '' @ toStr (projectId s0)))))"

section \<open>Scan creation\<close>

text \<open>The request object that \<open>sendStartScanRequest\<close> builds.\<close>

definition start_scan_request :: "env \<Rightarrow> json \<Rightarrow> SourceLocationType \<Rightarrow> json \<Rightarrow> json" where
  "start_scan_request e pid sourceLocation sourceUrl =
     JObj [(''project'',
       JObj [(''id'', pid),
             (''type'', JStr (locationTypeValue e sourceLocation)),
             (''handler'', JObj [(''url'', sourceUrl)])])]"

definition sendStartScanRequest :: "env \<Rightarrow> SourceLocationType \<Rightarrow> json \<Rightarrow> json action" where
  "sendStartScanRequest e sourceLocation sourceUrl =
     seq (log_at Info ''Sending a request to start scan.'')
    (with_client (\<lambda>s.
       postRequest e CREATE_SCAN (start_scan_request e (projectId s) sourceLocation sourceUrl)))"

definition submitSourceFromRemoteRepo :: "ScaConfig \<Rightarrow> env \<Rightarrow> json action" where
  "submitSourceFromRemoteRepo cfg e =
     seq (log_at Info ''Using remote repository flow.'')
     (case remoteRepositoryInfo cfg of
        None \<Rightarrow>
          raise (Error (''URL must be provided in CxSCA configuration when using source location of type ''
                        @ locationTypeValue e REMOTE_REPOSITORY @ ''.''))
      | Some repoInfo \<Rightarrow> sendStartScanRequest e REMOTE_REPOSITORY (JStr (url repoInfo)))"

definition getSourceUploadUrl :: "env \<Rightarrow> json action" where
  "getSourceUploadUrl e =
     andThen (postRequest e ZIP_UPLOAD (JObj []))
       (\<lambda>response.
          if \<not> truthy response then raise (Error ''Unable to get the upload URL.'')
          else andThen (lift (get_prop response ''url''))
                 (\<lambda>u. if \<not> truthy u then raise (Error ''Unable to get the upload URL.'')
                      else ok u))"

definition curl_command :: "json \<Rightarrow> string \<Rightarrow> string" where
  "curl_command u file =
     ''curl -X PUT -L '' @ [CHR 0x22] @ toStr u @ [CHR 0x22] @ '' -H '' @ [CHR 0x22]
     @ ''Content-Type:'' @ [CHR 0x22] @ '' -T '' @ [CHR 0x22] @ file @ [CHR 0x22]"

definition uploadToAWS :: "env \<Rightarrow> json \<Rightarrow> string \<Rightarrow> unit action" where
  "uploadToAWS e u file =
     seq (log_at Debug (''Sending PUT request to '' @ toStr u))
         (execSync e (curl_command u file))"

text \<open>
  How the \<open>curl\<close> command of \<open>uploadToAWS\<close> ends. The command carries no \<open>--fail\<close>
  option: \<open>curl\<close> exits with status 0 whenever the server answered the PUT, whatever the
  HTTP status of the answer, and with another status only when the transfer itself failed
  (no connection, unreadable file). \<open>execSync\<close> throws on an exit status other than 0
  and returns the output of the command otherwise; \<open>uploadToAWS\<close> discards that output.
\<close>

datatype curl_result = TransferFailed nat | HttpAnswer nat string

fun execSync_of_curl :: "curl_result \<Rightarrow> js_error + json" where
  "execSync_of_curl (TransferFailed exitStatus) = Inl (Error ''Command failed: curl'')"
| "execSync_of_curl (HttpAnswer status body) = Inr (JStr body)"

text \<open>The archive is at the storage location when the PUT was answered with a 2xx status.\<close>

fun upload_accepted :: "curl_result \<Rightarrow> bool" where
  "upload_accepted (TransferFailed exitStatus) = False"
| "upload_accepted (HttpAnswer status body) = (200 \<le> status \<and> status < 300)"

definition submitSourceFromLocalDir :: "ScaConfig \<Rightarrow> env \<Rightarrow> string \<Rightarrow> json action" where
  "submitSourceFromLocalDir cfg e sourceLocation =
     seq (log_at Info ''Using local directory flow.'')
    (andThen (lift (tmpNameSync e ''cxsrc-'' ''.zip''))
       (\<lambda>tempFilename.
     seq (log_at Info (''Zipping source code at '' @ sourceLocation @ '' into file '' @ tempFilename))
    (andThen (lift (zipDirectory e (dependencyFileExtension cfg) (dependencyFolderExclusion cfg)
                      sourceLocation tempFilename))
       (\<lambda>fileCount.
          if fileCount = 0
          then raise (TaskSkippedError ''Zip file is empty: no source to scan'')
          else seq (log_at Info ''Uploading the zipped source file...'')
              (andThen (getSourceUploadUrl e)
                 (\<lambda>uploadedArchiveUrl.
                    seq (uploadToAWS e uploadedArchiveUrl tempFilename)
                        (sendStartScanRequest e LOCAL_DIRECTORY uploadedArchiveUrl)))))))"

definition extractScanIdFrom :: "json \<Rightarrow> js_error + json" where
  "extractScanIdFrom response =
     (if \<not> truthy response then Inl (Error ''Unable to get scan ID.'')
      else case get_prop response ''id'' of
             Inl err \<Rightarrow> Inl err
           | Inr i \<Rightarrow> if truthy i then Inr i else Inl (Error ''Unable to get scan ID.''))"

definition createScan :: "ScaConfig \<Rightarrow> env \<Rightarrow> string \<Rightarrow> unit action" where
  "createScan cfg e sourceLocation =
     seq (log_at Info
            ''----------------------------------- Creating CxSCA Scan ------------------------------------'')
    (try_catch
       (andThen
          (if sourceLocationType cfg = REMOTE_REPOSITORY
           then submitSourceFromRemoteRepo cfg e
           else submitSourceFromLocalDir cfg e sourceLocation)
          (\<lambda>response.
             andThen (lift (extractScanIdFrom response))
               (\<lambda>i. seq (\<lambda>s. (Inr (), s\<lparr>scanId := i\<rparr>))
                    (seq (\<lambda>s. (Inr (), s\<lparr>stopwatch_started := True\<rparr>))
                         (log_at Info (''Scan started successfully. Scan ID: '' @ toStr i))))))
       (\<lambda>err. raise (Error (''Error creating CxSCA scan. '' @ message err))))"

section \<open>Retrieval of the results\<close>






definition summary_path :: "json \<Rightarrow> string" where
  "summary_path reportId = ''/risk-management/riskReports/'' @ toStr reportId @ ''/summary''"

definition findings_path :: "json \<Rightarrow> string" where
  "findings_path reportId = ''/risk-management/riskReports/'' @ toStr reportId @ ''/vulnerabilities''"

definition packages_path :: "json \<Rightarrow> string" where
  "packages_path reportId = ''/risk-management/riskReports/'' @ toStr reportId @ ''/packages''"




definition getWebReportLink :: "ScaConfig \<Rightarrow> json \<Rightarrow> string action" where
  "getWebReportLink cfg reportId =
     try_catch
       (with_client (\<lambda>s.
          if webAppUrl cfg = []
          then seq (log_at Warning
                      (''Unable to generate web report link. '' @ ''Web app URL is not specified.''))
                   (ok [])
          else ok (webAppUrl cfg @ ''/#/projects/'' @ toStr (projectId s)
                   @ ''/reports/'' @ toStr reportId)))
       (\<lambda>err. seq (log_at Warning (''Unable to generate web report link. '' @ error_toString err))
                   (ok []))"



section \<open>The threshold evaluator\<close>

text \<open>
  \<open>ScaSummaryEvaluator\<close> (src/services/scaSummaryEvaluator.ts) is missing from the
  sources, only its test is there. Its data and its operations follow sections 3 and 4.5
  of the specification.
\<close>

datatype severity = High | Medium | Low

record SeverityCounts =
  highResults :: nat
  mediumResults :: nat
  lowResults :: nat

record ThresholdConfig =
  vulnerabilityThreshold :: bool
  highThreshold :: nat
  mediumThreshold :: nat
  lowThreshold :: nat

record ThresholdViolation =
  violated :: severity
  observed :: nat
  allowed :: nat

fun count_of :: "SeverityCounts \<Rightarrow> severity \<Rightarrow> nat" where
  "count_of c High = highResults c"
| "count_of c Medium = mediumResults c"
| "count_of c Low = lowResults c"

fun ceiling_of :: "ThresholdConfig \<Rightarrow> severity \<Rightarrow> nat" where
  "ceiling_of t High = highThreshold t"
| "ceiling_of t Medium = mediumThreshold t"
| "ceiling_of t Low = lowThreshold t"

text \<open>
  Modelled from the spec: the comparison of one severity in the missing
  \<open>ScaSummaryEvaluator\<close>. A count strictly greater than its ceiling yields one violation,
  which carries the severity, the count and the ceiling.
\<close>

definition check_severity :: "SeverityCounts \<Rightarrow> ThresholdConfig \<Rightarrow> severity \<Rightarrow> ThresholdViolation list" where
  "check_severity c t sev =
     (if count_of c sev > ceiling_of t sev
      then [\<lparr>violated = sev, observed = count_of c sev, allowed = ceiling_of t sev\<rparr>]
      else [])"

text \<open>
  Modelled from the spec: \<open>evaluate\<close> of the missing \<open>ScaSummaryEvaluator\<close>
  (\<open>getScanSummary\<close> in the test). With the flag off nothing is compared and the
  result is empty; otherwise the three severities are compared independently, and the
  violations follow the order high, medium, low.
\<close>

definition evaluate :: "SeverityCounts \<Rightarrow> ThresholdConfig \<Rightarrow> ThresholdViolation list" where
  "evaluate c t =
     (if \<not> vulnerabilityThreshold t then []
      else check_severity c t High @ check_severity c t Medium @ check_severity c t Low)"

text \<open>
  Modelled from the spec: \<open>hasViolations\<close> of the missing evaluator
  (\<open>hasThresholdErrors\<close> in the test), the violations being more than none.
\<close>

definition hasViolations :: "ThresholdViolation list \<Rightarrow> bool" where
  "hasViolations vs = (length vs > 0)"

section \<open>The scan waiter\<close>

text \<open>
  \<open>SCAWaiter\<close> (src/services/scaWaiter.ts) is missing from the sources, the client only
  calls it. Its states and its loop follow section 4.3 of the specification.
\<close>

datatype scan_status = Queued | Running | Finished | Failed | Canceled

fun terminal :: "scan_status \<Rightarrow> bool" where
  "terminal Finished = True"
| "terminal Failed = True"
| "terminal Canceled = True"
| "terminal st = False"

datatype poll_result = Status scan_status | TransportFailure string

datatype wait_outcome = Terminal scan_status | TimeoutFailure | HardFailure string

record waiter_config =
  interval :: nat
  maxWait :: nat
  maxRetries :: nat

text \<open>
  Modelled from the spec: the polling loop of the missing \<open>SCAWaiter\<close>. The status is
  polled up to the maximum wait; a terminal status stops the loop and is returned; after
  a status that is not terminal the waiter sleeps one interval and polls again; exceeding
  the maximum wait gives a timeout of its own kind; a transport failure of a poll is
  retried a bounded number of times, then escalated.
  The elapsed time grows by each sleep. The remote service is the sequence of the answers
  to the polls. A loop that never returns has the value \<open>None\<close>.
\<close>

partial_function (option) poll_loop ::
  "waiter_config \<Rightarrow> (nat \<Rightarrow> poll_result) \<Rightarrow> nat \<Rightarrow> nat \<Rightarrow> nat \<Rightarrow> wait_outcome option" where
  "poll_loop w remote n elapsed failures =
     (if elapsed > maxWait w then Some TimeoutFailure
      else case remote n of
             Status st \<Rightarrow>
               if terminal st then Some (Terminal st)
               else poll_loop w remote (Suc n) (elapsed + interval w) failures
           | TransportFailure m \<Rightarrow>
               if failures < maxRetries w
               then poll_loop w remote (Suc n) (elapsed + interval w) (Suc failures)
               else Some (HardFailure m))"

text \<open>
  Modelled from the spec: \<open>waitForCompletion\<close> of the missing \<open>SCAWaiter\<close>
  (\<open>waitForScanToFinish\<close> in the client). The elapsed time starts at the time already
  spent since the submission, not at zero.
\<close>

definition waitForCompletion ::
  "waiter_config \<Rightarrow> (nat \<Rightarrow> poll_result) \<Rightarrow> nat \<Rightarrow> wait_outcome option" where
  "waitForCompletion w remote sinceSubmission = poll_loop w remote 0 sinceSubmission 0"

section \<open>Example collaborators\<close>

text \<open>
  A small service and its surroundings, for running the client on concrete inputs. The
  matcher stands for \<open>String.prototype.match\<close> on patterns without metacharacters, where
  the regular expression matches when the pattern occurs somewhere in the subject.
\<close>

fun is_prefix :: "string \<Rightarrow> string \<Rightarrow> bool" where
  "is_prefix [] s = True"
| "is_prefix (c # cs) [] = False"
| "is_prefix (c # cs) (d # ds) = (c = d \<and> is_prefix cs ds)"

fun is_substring :: "string \<Rightarrow> string \<Rightarrow> bool" where
  "is_substring p [] = (p = [])"
| "is_substring p (c # cs) = (is_prefix p (c # cs) \<or> is_substring p cs)"

definition literal_match :: "string \<Rightarrow> string \<Rightarrow> js_error + bool" where
  "literal_match subject pattern = Inr (is_substring pattern subject)"

definition project_entry :: "string \<Rightarrow> string \<Rightarrow> json" where
  "project_entry i n = JObj [(''id'', JStr i), (''name'', JStr n)]"

definition example_summary :: json where
  "example_summary =
     JObj [(''riskReportId'', JStr ''rep-1''), (''highVulnerabilityCount'', JNum 3),
           (''mediumVulnerabilityCount'', JNum 8), (''lowVulnerabilityCount'', JNum 4),
           (''totalPackages'', JNum 12), (''directPackages'', JNum 5),
           (''createdOn'', JStr ''2020-07-01''), (''riskScore'', JNum 7),
           (''totalOutdatedPackages'', JNum 2)]"

fun example_get :: "json \<Rightarrow> string \<Rightarrow> js_error + json" where
  "example_get projects path =
     (if path = PROJECTS then Inr projects
      else if path = ''/risk-management/scans/scan-1/riskReportId'' then Inr (JStr ''rep-1'')
      else if path = summary_path (JStr ''rep-1'') then Inr example_summary
      else if path = findings_path (JStr ''rep-1'') then Inr (JArr [JObj [(''id'', JStr ''CVE-1'')]])
      else if path = packages_path (JStr ''rep-1'') then Inr (JArr [JObj [(''id'', JStr ''pkg-1'')]])
      else Inl (Error ''Not Found''))"

fun example_post :: "string \<Rightarrow> json \<Rightarrow> js_error + json" where
  "example_post path body =
     (if path = PROJECTS then Inr (JObj [(''id'', JStr ''p-new'')])
      else if path = ZIP_UPLOAD then Inr (JObj [(''url'', JStr ''https://storage.example/u1'')])
      else if path = CREATE_SCAN then Inr (JObj [(''id'', JStr ''scan-1'')])
      else Inl (Error ''Not Found''))"

text \<open>The service, given the project collection it holds; every upload succeeds.\<close>

fun example_server :: "json \<Rightarrow> request list \<Rightarrow> request \<Rightarrow> js_error + json" where
  "example_server projects history (HttpGet path) = example_get projects path"
| "example_server projects history (HttpPost path body) = example_post path body"
| "example_server projects history (ExecSync command) = Inr (JStr [])"

text \<open>
  The same service on a machine where the \<open>curl\<close> process itself fails: it exits with a
  status other than 0, so \<open>execSync\<close> throws.
\<close>

fun curl_process_fails :: "json \<Rightarrow> request list \<Rightarrow> request \<Rightarrow> js_error + json" where
  "curl_process_fails projects history (ExecSync command) = Inl (Error ''Command failed: curl'')"
| "curl_process_fails projects history r = example_server projects history r"

text \<open>The same service behind a storage location where every upload ends as given.\<close>

fun storage_answers ::
  "curl_result \<Rightarrow> json \<Rightarrow> request list \<Rightarrow> request \<Rightarrow> js_error + json" where
  "storage_answers result projects history (ExecSync command) = execSync_of_curl result"
| "storage_answers result projects history r = example_server projects history r"

text \<open>The same service, whose answer to the start of a scan carries no identifier.\<close>

fun scan_without_id :: "json \<Rightarrow> request list \<Rightarrow> request \<Rightarrow> js_error + json" where
  "scan_without_id projects history (HttpPost path body) =
     (if path = CREATE_SCAN then Inr (JObj [(''status'', JStr ''Queued'')])
      else example_post path body)"
| "scan_without_id projects history r = example_server projects history r"


fun example_type_value :: "SourceLocationType \<Rightarrow> string" where
  "example_type_value REMOTE_REPOSITORY = ''git''"
| "example_type_value LOCAL_DIRECTORY = ''upload''"

fun example_zip :: "nat \<Rightarrow> string \<Rightarrow> string \<Rightarrow> string \<Rightarrow> string \<Rightarrow> js_error + nat" where
  "example_zip fileCount extensions exclusions sourceLocation archive = Inr fileCount"

fun example_tmp :: "string \<Rightarrow> string \<Rightarrow> js_error + string" where
  "example_tmp prefix postfix = Inr (''/tmp/'' @ prefix @ ''0001'' @ postfix)"

definition example_env :: "(request list \<Rightarrow> request \<Rightarrow> js_error + json) \<Rightarrow> nat \<Rightarrow> env" where
  "example_env server fileCount =
     \<lparr>respond = server, zipDirectory = example_zip fileCount, tmpNameSync = example_tmp,
      string_match = literal_match, locationTypeValue = example_type_value\<rparr>"

definition example_projects :: json where
  "example_projects = JArr [project_entry ''p-1'' ''webgoat-legacy'', project_entry ''p-2'' ''webgoat'']"

definition example_config :: "SourceLocationType \<Rightarrow> string \<Rightarrow> ScaConfig" where
  "example_config t u =
     \<lparr>webAppUrl = ''https://sca.example'', sourceLocationType = t,
      remoteRepositoryInfo = Some \<lparr>url = u\<rparr>, dependencyFileExtension = [],
      dependencyFolderExclusion = []\<rparr>"

section \<open>Running the methods\<close>

lemmas monad_defs = ok_def raise_def lift_def andThen_def seq_def try_catch_def with_client_def
  log_at_def send_def getRequest_def postRequest_def execSync_def

lemmas example_defs = example_env_def example_config_def example_projects_def project_entry_def
  new_client_def PROJECTS_def ZIP_UPLOAD_def CREATE_SCAN_def

lemma sendStartScanRequest_run:
  "sendStartScanRequest e t u s =
     (respond e (calls s) (HttpPost CREATE_SCAN (start_scan_request e (projectId s) t u)),
      s\<lparr>logged := logged s @ [(Info, ''Sending a request to start scan.'')],
        calls := calls s @ [HttpPost CREATE_SCAN (start_scan_request e (projectId s) t u)]\<rparr>)"
  by (simp add: sendStartScanRequest_def monad_defs)

section \<open>Thresholds\<close>

text \<open>
  Claim C1. With the threshold flag on, the evaluator reports a violation for a severity
  exactly when the count of that severity is strictly above its ceiling, whatever the
  other two severities do. The counts 3, 8, 4 against the ceilings 1, 5, 10 give exactly
  two violations, high then medium, and \<open>hasViolations\<close> holds.
\<close>

theorem evaluate_violation_iff:
  assumes "vulnerabilityThreshold t"
  shows "((\<exists>v \<in> set (evaluate c t). violated v = S) \<longleftrightarrow> ceiling_of t S < count_of c S)
       \<and> evaluate \<lparr>highResults = 3, mediumResults = 8, lowResults = 4\<rparr>
            \<lparr>vulnerabilityThreshold = True, highThreshold = 1, mediumThreshold = 5,
             lowThreshold = 10\<rparr>
          = [\<lparr>violated = High, observed = 3, allowed = 1\<rparr>,
             \<lparr>violated = Medium, observed = 8, allowed = 5\<rparr>]
       \<and> hasViolations (evaluate \<lparr>highResults = 3, mediumResults = 8, lowResults = 4\<rparr>
            \<lparr>vulnerabilityThreshold = True, highThreshold = 1, mediumThreshold = 5,
             lowThreshold = 10\<rparr>)"
proof -
  have "(\<exists>v \<in> set (evaluate c t). violated v = S) \<longleftrightarrow> ceiling_of t S < count_of c S"
    using assms by (cases S) (auto simp: evaluate_def check_severity_def)
  then show ?thesis
    by (simp add: evaluate_def check_severity_def hasViolations_def)
qed

theorem evaluate_violation_iff_witness:
  "vulnerabilityThreshold
     \<lparr>vulnerabilityThreshold = True, highThreshold = 1, mediumThreshold = 5, lowThreshold = 10\<rparr>
   \<and> (\<exists>v \<in> set (evaluate \<lparr>highResults = 3, mediumResults = 8, lowResults = 4\<rparr>
            \<lparr>vulnerabilityThreshold = True, highThreshold = 1, mediumThreshold = 5,
             lowThreshold = 10\<rparr>). violated v = Medium)
   \<and> \<not> (\<exists>v \<in> set (evaluate \<lparr>highResults = 3, mediumResults = 8, lowResults = 4\<rparr>
            \<lparr>vulnerabilityThreshold = True, highThreshold = 1, mediumThreshold = 5,
             lowThreshold = 10\<rparr>). violated v = Low)"
  using evaluate_violation_iff [of "\<lparr>vulnerabilityThreshold = True, highThreshold = 1,
            mediumThreshold = 5, lowThreshold = 10\<rparr>"
          "\<lparr>highResults = 3, mediumResults = 8, lowResults = 4\<rparr>" Medium]
        evaluate_violation_iff [of "\<lparr>vulnerabilityThreshold = True, highThreshold = 1,
            mediumThreshold = 5, lowThreshold = 10\<rparr>"
          "\<lparr>highResults = 3, mediumResults = 8, lowResults = 4\<rparr>" Low]
  by simp

section \<open>Waiting for the scan\<close>

lemma poll_loop_timeout:
  assumes "0 < interval w"
    and "\<And>k. elapsed + k * interval w \<le> maxWait w
           \<Longrightarrow> \<exists>st. remote (n + k) = Status st \<and> \<not> terminal st"
  shows "poll_loop w remote n elapsed failures = Some TimeoutFailure"
  using assms
proof (induction "Suc (maxWait w) - elapsed" arbitrary: n elapsed rule: less_induct)
  case less
  show ?case
  proof (cases "elapsed > maxWait w")
    case True
    then show ?thesis by (subst poll_loop.simps) simp
  next
    case False
    from less.prems(2)[of 0] False obtain st where st: "remote n = Status st" "\<not> terminal st"
      by auto
    have "poll_loop w remote (Suc n) (elapsed + interval w) failures = Some TimeoutFailure"
    proof (rule less.hyps)
      show "Suc (maxWait w) - (elapsed + interval w) < Suc (maxWait w) - elapsed"
        using False less.prems(1) by simp
      show "0 < interval w" by fact
      fix k assume "elapsed + interval w + k * interval w \<le> maxWait w"
      then have "elapsed + Suc k * interval w \<le> maxWait w" by (simp add: algebra_simps)
      from less.prems(2)[OF this] show "\<exists>st. remote (Suc n + k) = Status st \<and> \<not> terminal st"
        by simp
    qed
    with st False show ?thesis by (subst poll_loop.simps) simp
  qed
qed

text \<open>
  Claim C9. When every poll made within the maximum wait answers with a status that is
  not terminal, the waiter returns, and what it returns is the timeout: not \<open>Finished\<close>,
  and not the \<open>Failed\<close> or \<open>Canceled\<close> that the service reports. The interval is
  positive, so that sleeping makes the time advance.
\<close>

theorem waiter_times_out:
  assumes "0 < interval w"
    and "\<forall>k. sinceSubmission + k * interval w \<le> maxWait w
           \<longrightarrow> (\<exists>st. remote k = Status st \<and> \<not> terminal st)"
  shows "waitForCompletion w remote sinceSubmission = Some TimeoutFailure
       \<and> waitForCompletion w remote sinceSubmission \<noteq> Some (Terminal Finished)
       \<and> waitForCompletion w remote sinceSubmission \<noteq> Some (Terminal Failed)
       \<and> waitForCompletion w remote sinceSubmission \<noteq> Some (Terminal Canceled)"
proof -
  have "poll_loop w remote 0 sinceSubmission 0 = Some TimeoutFailure"
    using assms by (intro poll_loop_timeout) auto
  then show ?thesis by (simp add: waitForCompletion_def)
qed

theorem waiter_times_out_witness:
  "0 < interval \<lparr>interval = 5, maxWait = 12, maxRetries = 3\<rparr>
   \<and> waitForCompletion \<lparr>interval = 5, maxWait = 12, maxRetries = 3\<rparr>
        (\<lambda>k. if k < 3 then Status Running else Status Finished) 2 = Some TimeoutFailure"
proof -
  have "\<forall>k. 2 + k * interval \<lparr>interval = 5, maxWait = 12, maxRetries = 3\<rparr>
             \<le> maxWait \<lparr>interval = 5, maxWait = 12, maxRetries = 3\<rparr>
           \<longrightarrow> (\<exists>st. (if k < 3 then Status Running else Status Finished) = Status st
                      \<and> \<not> terminal st)"
    by auto
  then show ?thesis
    using waiter_times_out [of "\<lparr>interval = 5, maxWait = 12, maxRetries = 3\<rparr>" 2
            "\<lambda>k. if k < 3 then Status Running else Status Finished"]
    by simp
qed

section \<open>The link to the report\<close>

text \<open>
  Claim C8. Building the link to the web report returns normally for every client state
  and report identifier. With a base URL configured, the link is that URL followed by the
  path of the report of the project; with an empty base URL the link is empty and one
  warning is logged.
\<close>

theorem web_report_link_total:
  "getWebReportLink cfg reportId s =
     (if webAppUrl cfg = []
      then (Inr [],
            s\<lparr>logged := logged s @
                 [(Warning, ''Unable to generate web report link. Web app URL is not specified.'')]\<rparr>)
      else (Inr (webAppUrl cfg @ ''/#/projects/'' @ toStr (projectId s)
                 @ ''/reports/'' @ toStr reportId), s))"
  by (simp add: getWebReportLink_def monad_defs)

theorem web_report_link_total_witness:
  "getWebReportLink (example_config LOCAL_DIRECTORY []) (JStr ''rep-1'')
      (new_client\<lparr>projectId := JStr ''p-2''\<rparr>)
     = (Inr ''https://sca.example/#/projects/p-2/reports/rep-1'', new_client\<lparr>projectId := JStr ''p-2''\<rparr>)
   \<and> getWebReportLink ((example_config LOCAL_DIRECTORY [])\<lparr>webAppUrl := []\<rparr>) (JNum 17) new_client
     = (Inr [],
        new_client\<lparr>logged :=
          [(Warning, ''Unable to generate web report link. Web app URL is not specified.'')]\<rparr>)"
  using web_report_link_total [of "example_config LOCAL_DIRECTORY []" "JStr ''rep-1''"
          "new_client\<lparr>projectId := JStr ''p-2''\<rparr>"]
        web_report_link_total [of "(example_config LOCAL_DIRECTORY [])\<lparr>webAppUrl := []\<rparr>"
          "JNum 17" new_client]
  by (simp add: example_defs)

section \<open>Submitting the source\<close>

text \<open>
  Claim C2. The client is run on a remote-repository configuration whose repository
  information carries the empty URL, the value the test configuration of the repository
  starts from. No error is raised: the request that starts the scan is sent with the
  empty URL as its handler, and the scan identifier of the answer is adopted.
\<close>

theorem remote_repository_empty_url_is_submitted:
  "createScan (example_config REMOTE_REPOSITORY []) (example_env (example_server example_projects) 3)
       ''/src'' new_client
   = (Inr (),
      new_client\<lparr>scanId := JStr ''scan-1'', stopwatch_started := True,
        logged :=
          [(Info, ''----------------------------------- Creating CxSCA Scan ------------------------------------''),
           (Info, ''Using remote repository flow.''),
           (Info, ''Sending a request to start scan.''),
           (Info, ''Scan started successfully. Scan ID: scan-1'')],
        calls :=
          [HttpPost ''/api/scans''
             (JObj [(''project'',
                JObj [(''id'', JStr []), (''type'', JStr ''git''),
                      (''handler'', JObj [(''url'', JStr [])])])])]\<rparr>)"
  by (simp add: createScan_def submitSourceFromRemoteRepo_def sendStartScanRequest_def
        start_scan_request_def extractScanIdFrom_def monad_defs example_defs)

text \<open>
  Claim C3. The client is run on a local directory whose archive holds no file. The
  submission of the local directory throws \<open>TaskSkippedError\<close> before any request is
  issued. \<open>createScan\<close>, its only caller, catches it and throws a plain \<open>Error\<close> in
  its place, of the same class as the one it throws when the upload command fails.
\<close>

theorem empty_archive_skip_is_rewrapped:
  "submitSourceFromLocalDir (example_config LOCAL_DIRECTORY [])
       (example_env (example_server example_projects) 0) ''/src'' new_client
   = (Inl (TaskSkippedError ''Zip file is empty: no source to scan''),
      new_client\<lparr>logged :=
        [(Info, ''Using local directory flow.''),
         (Info, ''Zipping source code at /src into file /tmp/cxsrc-0001.zip'')]\<rparr>)
   \<and> createScan (example_config LOCAL_DIRECTORY [])
       (example_env (example_server example_projects) 0) ''/src'' new_client
   = (Inl (Error ''Error creating CxSCA scan. Zip file is empty: no source to scan''),
      new_client\<lparr>logged :=
        [(Info, ''----------------------------------- Creating CxSCA Scan ------------------------------------''),
         (Info, ''Using local directory flow.''),
         (Info, ''Zipping source code at /src into file /tmp/cxsrc-0001.zip'')]\<rparr>)
   \<and> fst (createScan (example_config LOCAL_DIRECTORY [])
       (example_env (curl_process_fails example_projects) 3) ''/src'' new_client)
   = Inl (Error ''Error creating CxSCA scan. Command failed: curl'')"
  by (simp add: createScan_def submitSourceFromLocalDir_def getSourceUploadUrl_def uploadToAWS_def
        sendStartScanRequest_def start_scan_request_def extractScanIdFrom_def monad_defs
        example_defs)

lemma extractScanIdFrom_Inr_iff:
  "extractScanIdFrom response = Inr i \<longleftrightarrow>
     (\<exists>kvs. response = JObj kvs \<and> map_of kvs ''id'' = Some i \<and> truthy i)"
  by (cases response) (auto simp: extractScanIdFrom_def split: option.splits)

lemma extractScanIdFrom_Inl:
  "extractScanIdFrom response = Inl err \<Longrightarrow> err = Error ''Unable to get scan ID.''"
  by (cases response) (auto simp: extractScanIdFrom_def split: option.splits if_splits)

lemma submitSourceFromRemoteRepo_response:
  "submitSourceFromRemoteRepo cfg e s = (Inr response, s1) \<Longrightarrow>
     \<exists>pre body. calls s1 = pre @ [HttpPost CREATE_SCAN body]
        \<and> respond e pre (HttpPost CREATE_SCAN body) = Inr response"
  by (auto simp: submitSourceFromRemoteRepo_def sendStartScanRequest_run monad_defs
           split: option.splits)

lemma submitSourceFromLocalDir_response:
  "submitSourceFromLocalDir cfg e src s = (Inr response, s1) \<Longrightarrow>
     \<exists>pre body. calls s1 = pre @ [HttpPost CREATE_SCAN body]
        \<and> respond e pre (HttpPost CREATE_SCAN body) = Inr response"
  by (auto simp: submitSourceFromLocalDir_def getSourceUploadUrl_def uploadToAWS_def
                 sendStartScanRequest_run monad_defs
           split: option.splits sum.splits if_splits)

lemma createScan_after_submission:
  assumes "(if sourceLocationType cfg = REMOTE_REPOSITORY
            then submitSourceFromRemoteRepo cfg e
            else submitSourceFromLocalDir cfg e src)
             (s\<lparr>logged := logged s @
                [(Info, ''----------------------------------- Creating CxSCA Scan ------------------------------------'')]\<rparr>)
           = (Inr response, s1)"
  shows "createScan cfg e src s =
     (case extractScanIdFrom response of
        Inl err \<Rightarrow> (Inl (Error (''Error creating CxSCA scan. '' @ message err)), s1)
      | Inr i \<Rightarrow>
          (Inr (), s1\<lparr>scanId := i, stopwatch_started := True,
             logged := logged s1 @ [(Info, ''Scan started successfully. Scan ID: '' @ toStr i)]\<rparr>))"
  using assms by (simp add: createScan_def monad_defs split: sum.splits)

text \<open>
  Claim C6. Let the submission of the source, in either flow, return the answer of the
  service to the request that starts the scan. If the answer is an object with a truthy
  \<open>id\<close>, \<open>createScan\<close> returns normally and that \<open>id\<close> is the scan identifier of the
  client. In every other case \<open>createScan\<close> throws the error wrapping "Unable to get
  scan ID." and issues no further request: the start of the scan is not tried again.
\<close>

theorem scan_id_extracted_or_hard_failure:
  assumes "(if sourceLocationType cfg = REMOTE_REPOSITORY
            then submitSourceFromRemoteRepo cfg e
            else submitSourceFromLocalDir cfg e src)
             (s\<lparr>logged := logged s @
                [(Info, ''----------------------------------- Creating CxSCA Scan ------------------------------------'')]\<rparr>)
           = (Inr response, s1)"
  shows "(\<exists>pre body. calls s1 = pre @ [HttpPost CREATE_SCAN body]
            \<and> respond e pre (HttpPost CREATE_SCAN body) = Inr response)
       \<and> ((\<exists>kvs i. response = JObj kvs \<and> map_of kvs ''id'' = Some i \<and> truthy i
              \<and> createScan cfg e src s =
                  (Inr (), s1\<lparr>scanId := i, stopwatch_started := True,
                     logged := logged s1 @
                       [(Info, ''Scan started successfully. Scan ID: '' @ toStr i)]\<rparr>))
          \<or> ((\<nexists>kvs i. response = JObj kvs \<and> map_of kvs ''id'' = Some i \<and> truthy i)
              \<and> createScan cfg e src s =
                  (Inl (Error ''Error creating CxSCA scan. Unable to get scan ID.''), s1)))"
proof
  show "\<exists>pre body. calls s1 = pre @ [HttpPost CREATE_SCAN body]
            \<and> respond e pre (HttpPost CREATE_SCAN body) = Inr response"
    using assms submitSourceFromRemoteRepo_response submitSourceFromLocalDir_response
    by (auto split: if_splits)
next
  note run = createScan_after_submission[OF assms]
  show "(\<exists>kvs i. response = JObj kvs \<and> map_of kvs ''id'' = Some i \<and> truthy i
              \<and> createScan cfg e src s =
                  (Inr (), s1\<lparr>scanId := i, stopwatch_started := True,
                     logged := logged s1 @
                       [(Info, ''Scan started successfully. Scan ID: '' @ toStr i)]\<rparr>))
          \<or> ((\<nexists>kvs i. response = JObj kvs \<and> map_of kvs ''id'' = Some i \<and> truthy i)
              \<and> createScan cfg e src s =
                  (Inl (Error ''Error creating CxSCA scan. Unable to get scan ID.''), s1))"
  proof (cases "extractScanIdFrom response")
    case (Inl err)
    then have "err = Error ''Unable to get scan ID.''"
      by (rule extractScanIdFrom_Inl)
    moreover have "\<nexists>kvs i. response = JObj kvs \<and> map_of kvs ''id'' = Some i \<and> truthy i"
      using Inl extractScanIdFrom_Inr_iff[of response] by auto
    ultimately show ?thesis using run Inl by simp
  next
    case (Inr i)
    then show ?thesis using run extractScanIdFrom_Inr_iff[of response i] by auto
  qed
qed

theorem scan_id_extracted_or_hard_failure_witness:
  "(if sourceLocationType (example_config REMOTE_REPOSITORY ''https://git.example/app.git'') = REMOTE_REPOSITORY
    then submitSourceFromRemoteRepo (example_config REMOTE_REPOSITORY ''https://git.example/app.git'')
           (example_env (scan_without_id example_projects) 3)
    else submitSourceFromLocalDir (example_config REMOTE_REPOSITORY ''https://git.example/app.git'')
           (example_env (scan_without_id example_projects) 3) ''/src'')
     (new_client\<lparr>logged := logged new_client @
        [(Info, ''----------------------------------- Creating CxSCA Scan ------------------------------------'')]\<rparr>)
   = (Inr (JObj [(''status'', JStr ''Queued'')]),
      new_client\<lparr>logged :=
          [(Info, ''----------------------------------- Creating CxSCA Scan ------------------------------------''),
           (Info, ''Using remote repository flow.''),
           (Info, ''Sending a request to start scan.'')],
        calls :=
          [HttpPost ''/api/scans''
             (JObj [(''project'',
                JObj [(''id'', JStr []), (''type'', JStr ''git''),
                      (''handler'', JObj [(''url'', JStr ''https://git.example/app.git'')])])])]\<rparr>)
   \<and> createScan (example_config REMOTE_REPOSITORY ''https://git.example/app.git'')
         (example_env (scan_without_id example_projects) 3) ''/src'' new_client
   = (Inl (Error ''Error creating CxSCA scan. Unable to get scan ID.''),
      new_client\<lparr>logged :=
          [(Info, ''----------------------------------- Creating CxSCA Scan ------------------------------------''),
           (Info, ''Using remote repository flow.''),
           (Info, ''Sending a request to start scan.'')],
        calls :=
          [HttpPost ''/api/scans''
             (JObj [(''project'',
                JObj [(''id'', JStr []), (''type'', JStr ''git''),
                      (''handler'', JObj [(''url'', JStr ''https://git.example/app.git'')])])])]\<rparr>)"
  (is "?hyp \<and> ?concl")
proof -
  have h: ?hyp
    by (simp add: submitSourceFromRemoteRepo_def sendStartScanRequest_def start_scan_request_def
          monad_defs example_defs)
  from scan_id_extracted_or_hard_failure [OF h] have ?concl
    by auto
  with h show ?thesis by blast
qed

text \<open>
  In the local-directory flow, whenever the request that starts the scan is issued, the
  requests of the submission are exactly three, in this order: the one call for the
  upload URL, the upload command, which returned normally, and the start of the scan with
  that URL. When the upload command throws, it is the last request of the submission.
\<close>

lemma start_scan_after_upload_command:
  assumes "submitSourceFromLocalDir cfg e src s = (r, s')"
  shows "\<exists>new. calls s' = calls s @ new \<and>
      (\<forall>body. HttpPost CREATE_SCAN body \<in> set new \<longrightarrow>
         (\<exists>tmp resp u x.
             tmpNameSync e ''cxsrc-'' ''.zip'' = Inr tmp \<and>
             respond e (calls s) (HttpPost ZIP_UPLOAD (JObj [])) = Inr resp \<and>
             get_prop resp ''url'' = Inr u \<and>
             respond e (calls s @ [HttpPost ZIP_UPLOAD (JObj [])]) (ExecSync (curl_command u tmp))
               = Inr x \<and>
             body = start_scan_request e (projectId s) LOCAL_DIRECTORY u \<and>
             new = [HttpPost ZIP_UPLOAD (JObj []), ExecSync (curl_command u tmp),
                    HttpPost CREATE_SCAN body]))
    \<and> (\<forall>pre c post err. new = pre @ ExecSync c # post \<longrightarrow>
            respond e (calls s @ pre) (ExecSync c) = Inl err \<longrightarrow>
            post = [] \<and> (\<forall>body. HttpPost CREATE_SCAN body \<notin> set new))"
  using assms
  apply (simp add: submitSourceFromLocalDir_def getSourceUploadUrl_def uploadToAWS_def
           sendStartScanRequest_run monad_defs split: sum.splits if_splits)
  apply (auto simp: CREATE_SCAN_def ZIP_UPLOAD_def Cons_eq_append_conv append_eq_Cons_conv)
  done

text \<open>
  Claim C5. The client is run on a local directory behind a storage location that
  answers the PUT of the archive with the HTTP status 403. The archive is not uploaded,
  but the \<open>curl\<close> command ends with status 0, \<open>execSync\<close> returns, and the request
  that starts the scan is issued all the same, with the URL of the upload that was
  refused.
\<close>

theorem refused_upload_still_starts_scan:
  "\<not> upload_accepted (HttpAnswer 403 ''AccessDenied'')
   \<and> submitSourceFromLocalDir (example_config LOCAL_DIRECTORY [])
       (example_env (storage_answers (HttpAnswer 403 ''AccessDenied'') example_projects) 3)
       ''/src'' new_client
   = (Inr (JObj [(''id'', JStr ''scan-1'')]),
      new_client\<lparr>logged :=
          [(Info, ''Using local directory flow.''),
           (Info, ''Zipping source code at /src into file /tmp/cxsrc-0001.zip''),
           (Info, ''Uploading the zipped source file...''),
           (Debug, ''Sending PUT request to https://storage.example/u1''),
           (Info, ''Sending a request to start scan.'')],
        calls :=
          [HttpPost ''/api/uploads'' (JObj []),
           ExecSync (curl_command (JStr ''https://storage.example/u1'') ''/tmp/cxsrc-0001.zip''),
           HttpPost ''/api/scans''
             (JObj [(''project'',
                JObj [(''id'', JStr []), (''type'', JStr ''upload''),
                      (''handler'', JObj [(''url'', JStr ''https://storage.example/u1'')])])])]\<rparr>)"
  by (simp add: submitSourceFromLocalDir_def getSourceUploadUrl_def uploadToAWS_def
        sendStartScanRequest_def start_scan_request_def curl_command_def monad_defs example_defs)

section \<open>Retrieving the results\<close>






section \<open>Resolving the project\<close>

lemma name_matches_has_id:
  "name_matches e p pn = Inr b \<Longrightarrow> \<exists>i. get_prop p ''id'' = Inr i"
  by (cases p) (auto simp: name_matches_def)

lemma search_projects_no_match:
  "\<forall>p \<in> set ps. name_matches e p pn = Inr False \<Longrightarrow> search_projects e pn ps s = (Inr (), s)"
  by (induction ps) (auto simp: monad_defs)

lemma search_projects_first_match:
  assumes "\<forall>q \<in> set pre. name_matches e q pn = Inr False"
    and "name_matches e p pn = Inr True"
    and "get_prop p ''id'' = Inr i"
  shows "search_projects e pn (pre @ p # post) s = (Inr (), s\<lparr>projectId := i\<rparr>)"
  using assms by (induction pre) (auto simp: monad_defs)

lemma search_projects_cases:
  "search_projects e pn ps s = (r, s') \<Longrightarrow>
     (r = Inr () \<and> s' = s \<and> (\<forall>p \<in> set ps. name_matches e p pn = Inr False))
   \<or> (\<exists>pre p post i. r = Inr () \<and> s' = s\<lparr>projectId := i\<rparr> \<and> ps = pre @ p # post
         \<and> (\<forall>q \<in> set pre. name_matches e q pn = Inr False)
         \<and> name_matches e p pn = Inr True \<and> get_prop p ''id'' = Inr i)
   \<or> (\<exists>err. r = Inl err \<and> s' = s)"
proof (induction ps)
  case Nil
  then show ?case by (auto simp: monad_defs)
next
  case (Cons a ps)
  show ?case
  proof (cases "name_matches e a pn")
    case (Inl err)
    with Cons.prems show ?thesis by (auto simp: monad_defs)
  next
    case (Inr b)
    show ?thesis
    proof (cases b)
      case True
      obtain i where i: "get_prop a ''id'' = Inr i"
        using Inr name_matches_has_id by blast
      have "r = Inr () \<and> s' = s\<lparr>projectId := i\<rparr>"
        using Cons.prems Inr True i by (auto simp: monad_defs)
      then have "\<exists>pre p post i. r = Inr () \<and> s' = s\<lparr>projectId := i\<rparr> \<and> a # ps = pre @ p # post
         \<and> (\<forall>q \<in> set pre. name_matches e q pn = Inr False)
         \<and> name_matches e p pn = Inr True \<and> get_prop p ''id'' = Inr i"
        using Inr True i by (intro exI[of _ "[]"] exI[of _ a] exI[of _ ps] exI[of _ i]) simp
      then show ?thesis by blast
    next
      case False
      with Cons.prems Inr have rest: "search_projects e pn ps s = (r, s')"
        by (auto simp: monad_defs)
      from Cons.IH[OF rest] show ?thesis
      proof (elim disjE exE conjE)
        assume "r = Inr ()" "s' = s" "\<forall>p \<in> set ps. name_matches e p pn = Inr False"
        then show ?thesis using Inr False by auto
      next
        fix pre p post i
        assume a: "r = Inr ()" "s' = s\<lparr>projectId := i\<rparr>" "ps = pre @ p # post"
          "\<forall>q \<in> set pre. name_matches e q pn = Inr False"
          "name_matches e p pn = Inr True" "get_prop p ''id'' = Inr i"
        then have "\<exists>pre p post i. r = Inr () \<and> s' = s\<lparr>projectId := i\<rparr> \<and> a # ps = pre @ p # post
         \<and> (\<forall>q \<in> set pre. name_matches e q pn = Inr False)
         \<and> name_matches e p pn = Inr True \<and> get_prop p ''id'' = Inr i"
          using Inr False
          by (intro exI[of _ "a # pre"] exI[of _ p] exI[of _ post] exI[of _ i]) simp
        then show ?thesis by blast
      next
        fix err assume "r = Inl err" "s' = s"
        then show ?thesis by blast
      qed
    qed
  qed
qed

lemma getProjectIdByName_run:
  assumes "projectName \<noteq> []"
    and "respond e (calls s) (HttpGet PROJECTS) = Inr allProjects"
    and "js_iterate allProjects = Inr ps"
  shows "getProjectIdByName e projectName s =
           search_projects e projectName ps (s\<lparr>calls := calls s @ [HttpGet PROJECTS]\<rparr>)"
  using assms by (simp add: getProjectIdByName_def getAllProjects_def monad_defs)

lemma createProject_run:
  "createProject e projectName s =
     (case respond e (calls s) (HttpPost PROJECTS (JObj [(''name'', JStr projectName)])) of
        Inl err \<Rightarrow> Inl err
      | Inr newProject \<Rightarrow> get_prop newProject ''id'',
      s\<lparr>calls := calls s @ [HttpPost PROJECTS (JObj [(''name'', JStr projectName)])]\<rparr>)"
  by (simp add: createProject_def monad_defs split: sum.splits)

lemma resolveProject_run:
  assumes "getProjectIdByName e projectName
             (s\<lparr>logged := logged s @ [(Info, ''Resolving project by name: '' @ projectName)]\<rparr>)
           = (r, s2)"
  shows "resolveProject e projectName s =
     (case r of
        Inl err \<Rightarrow> (Inl err, s2)
      | Inr u \<Rightarrow>
          if \<not> truthy (projectId s2)
          then (case respond e (calls s2) (HttpPost PROJECTS (JObj [(''name'', JStr projectName)])) of
                  Inl err \<Rightarrow>
                    (Inl err,
                     s2\<lparr>logged := logged s2 @ [(Info, ''Project not found, creating a new one.'')],
                        calls := calls s2 @ [HttpPost PROJECTS (JObj [(''name'', JStr projectName)])]\<rparr>)
                | Inr newProject \<Rightarrow>
                    (case get_prop newProject ''id'' of
                       Inl err \<Rightarrow>
                         (Inl err,
                          s2\<lparr>logged := logged s2 @ [(Info, ''Project not found, creating a new one.'')],
                             calls := calls s2 @ [HttpPost PROJECTS (JObj [(''name'', JStr projectName)])]\<rparr>)
                     | Inr i \<Rightarrow>
                         (Inr (),
                          s2\<lparr>projectId := i,
                             logged := logged s2 @ [(Info, ''Project not found, creating a new one.''),
                                                    (Info, ''Created a project with ID: '' @ toStr i)],
                             calls := calls s2 @ [HttpPost PROJECTS (JObj [(''name'', JStr projectName)])]\<rparr>)))
          else (Inr (), s2\<lparr>logged := logged s2 @
                  [(Info, ''Project already exists with ID: '' @ toStr (projectId s2))]\<rparr>))"
  using assms
  by (auto simp add: resolveProject_def createProject_run monad_defs split: sum.splits)

text \<open>
  With the empty project name, \<open>resolveProject\<close> throws and issues no request. With any
  other name its first request fetches the project collection. When the client holds no
  project identifier and the name matches none of the fetched projects, the next and last
  request creates a project of that name, and the \<open>id\<close> of the answer becomes the
  project identifier of the client.
\<close>

lemma resolveProject_without_project_id:
  "resolveProject e [] s =
     (Inl (Error ''Non-empty project name must be provided.''),
      s\<lparr>logged := logged s @ [(Info, ''Resolving project by name: '')]\<rparr>)
   \<and> (projectName \<noteq> [] \<longrightarrow>
        (\<exists>rest. calls (snd (resolveProject e projectName s)) = calls s @ HttpGet PROJECTS # rest))
   \<and> (projectName \<noteq> [] \<longrightarrow> \<not> truthy (projectId s) \<longrightarrow>
       respond e (calls s) (HttpGet PROJECTS) = Inr allProjects \<longrightarrow>
       js_iterate allProjects = Inr ps \<longrightarrow>
       (\<forall>p \<in> set ps. name_matches e p projectName = Inr False) \<longrightarrow>
         calls (snd (resolveProject e projectName s)) =
           calls s @ [HttpGet PROJECTS, HttpPost PROJECTS (JObj [(''name'', JStr projectName)])]
       \<and> (\<forall>newProject i.
             respond e (calls s @ [HttpGet PROJECTS])
               (HttpPost PROJECTS (JObj [(''name'', JStr projectName)])) = Inr newProject \<longrightarrow>
             get_prop newProject ''id'' = Inr i \<longrightarrow>
               fst (resolveProject e projectName s) = Inr ()
             \<and> projectId (snd (resolveProject e projectName s)) = i))"
proof (intro conjI impI)
  show "resolveProject e [] s =
     (Inl (Error ''Non-empty project name must be provided.''),
      s\<lparr>logged := logged s @ [(Info, ''Resolving project by name: '')]\<rparr>)"
    by (simp add: resolveProject_def getProjectIdByName_def monad_defs)
next
  assume "projectName \<noteq> []"
  then show "\<exists>rest. calls (snd (resolveProject e projectName s)) = calls s @ HttpGet PROJECTS # rest"
    apply (simp add: resolveProject_def getProjectIdByName_def getAllProjects_def createProject_def
             monad_defs split: sum.splits prod.splits)
    apply (auto dest!: search_projects_cases)
    done
next
  assume a: "projectName \<noteq> []" "\<not> truthy (projectId s)"
    "respond e (calls s) (HttpGet PROJECTS) = Inr allProjects"
    "js_iterate allProjects = Inr ps"
    "\<forall>p \<in> set ps. name_matches e p projectName = Inr False"
  let ?s1 = "s\<lparr>logged := logged s @ [(Info, ''Resolving project by name: '' @ projectName)]\<rparr>"
  have "getProjectIdByName e projectName ?s1 =
          (Inr (), ?s1\<lparr>calls := calls ?s1 @ [HttpGet PROJECTS]\<rparr>)"
    using getProjectIdByName_run [of projectName e ?s1 allProjects ps] a
      search_projects_no_match [of ps e projectName]
    by simp
  note run = resolveProject_run [OF this]
  show "calls (snd (resolveProject e projectName s)) =
           calls s @ [HttpGet PROJECTS, HttpPost PROJECTS (JObj [(''name'', JStr projectName)])]"
    using run a(2) by (simp split: sum.splits)
  show "\<forall>newProject i.
             respond e (calls s @ [HttpGet PROJECTS])
               (HttpPost PROJECTS (JObj [(''name'', JStr projectName)])) = Inr newProject \<longrightarrow>
             get_prop newProject ''id'' = Inr i \<longrightarrow>
               fst (resolveProject e projectName s) = Inr ()
             \<and> projectId (snd (resolveProject e projectName s)) = i"
    using run a(2) by (simp split: sum.splits)
qed


text \<open>
  Let the project collection be fetched and iterable. The first project in the order of
  the collection whose name the requested name matches, as a pattern given to
  \<open>String.prototype.match\<close>, is the one whose \<open>id\<close> becomes the project identifier, and
  when that \<open>id\<close> is truthy no project is created. A project is created only when no
  name in the collection matches, or when the \<open>id\<close> of the first matching project is
  falsy.
\<close>

lemma first_match_is_bound:
  assumes "projectName \<noteq> []"
    and "respond e (calls s) (HttpGet PROJECTS) = Inr allProjects"
    and "js_iterate allProjects = Inr ps"
  shows "(\<forall>pre p post.
            ps = pre @ p # post \<longrightarrow>
            (\<forall>q \<in> set pre. name_matches e q projectName = Inr False) \<longrightarrow>
            name_matches e p projectName = Inr True \<longrightarrow>
              (\<exists>i. get_prop p ''id'' = Inr i
                 \<and> getProjectIdByName e projectName s =
                     (Inr (), s\<lparr>projectId := i, calls := calls s @ [HttpGet PROJECTS]\<rparr>)
                 \<and> (truthy i \<longrightarrow>
                      resolveProject e projectName s =
                        (Inr (),
                         s\<lparr>projectId := i,
                           logged := logged s @
                             [(Info, ''Resolving project by name: '' @ projectName),
                              (Info, ''Project already exists with ID: '' @ toStr i)],
                           calls := calls s @ [HttpGet PROJECTS]\<rparr>))))
       \<and> (\<forall>new body.
            calls (snd (resolveProject e projectName s)) = calls s @ new \<longrightarrow>
            HttpPost PROJECTS body \<in> set new \<longrightarrow>
              (\<forall>p \<in> set ps. name_matches e p projectName = Inr False)
            \<or> (\<exists>pre p post i.
                  ps = pre @ p # post
                \<and> (\<forall>q \<in> set pre. name_matches e q projectName = Inr False)
                \<and> name_matches e p projectName = Inr True
                \<and> get_prop p ''id'' = Inr i \<and> \<not> truthy i))"
proof (intro conjI allI impI)
  fix pre p post
  assume a: "ps = pre @ p # post" "\<forall>q \<in> set pre. name_matches e q projectName = Inr False"
    "name_matches e p projectName = Inr True"
  obtain i where i: "get_prop p ''id'' = Inr i"
    using a(3) name_matches_has_id by blast
  have bound: "\<And>s0. respond e (calls s0) (HttpGet PROJECTS) = Inr allProjects \<Longrightarrow>
      getProjectIdByName e projectName s0 =
         (Inr (), s0\<lparr>projectId := i, calls := calls s0 @ [HttpGet PROJECTS]\<rparr>)"
    using getProjectIdByName_run [OF assms(1) _ assms(3)]
      search_projects_first_match [OF a(2) a(3) i, of post] a(1)
    by simp
  let ?s1 = "s\<lparr>logged := logged s @ [(Info, ''Resolving project by name: '' @ projectName)]\<rparr>"
  have "getProjectIdByName e projectName ?s1 =
         (Inr (), ?s1\<lparr>projectId := i, calls := calls ?s1 @ [HttpGet PROJECTS]\<rparr>)"
    using bound [of ?s1] assms(2) by simp
  note run = resolveProject_run [OF this]
  have "truthy i \<longrightarrow>
          resolveProject e projectName s =
            (Inr (),
             s\<lparr>projectId := i,
               logged := logged s @
                 [(Info, ''Resolving project by name: '' @ projectName),
                  (Info, ''Project already exists with ID: '' @ toStr i)],
               calls := calls s @ [HttpGet PROJECTS]\<rparr>)"
    using run by simp
  with i bound [OF assms(2)]
  show "\<exists>i. get_prop p ''id'' = Inr i
                 \<and> getProjectIdByName e projectName s =
                     (Inr (), s\<lparr>projectId := i, calls := calls s @ [HttpGet PROJECTS]\<rparr>)
                 \<and> (truthy i \<longrightarrow>
                      resolveProject e projectName s =
                        (Inr (),
                         s\<lparr>projectId := i,
                           logged := logged s @
                             [(Info, ''Resolving project by name: '' @ projectName),
                              (Info, ''Project already exists with ID: '' @ toStr i)],
                           calls := calls s @ [HttpGet PROJECTS]\<rparr>))"
    by blast
next
  fix new body
  assume tr: "calls (snd (resolveProject e projectName s)) = calls s @ new"
    and post: "HttpPost PROJECTS body \<in> set new"
  let ?s1 = "s\<lparr>logged := logged s @ [(Info, ''Resolving project by name: '' @ projectName)]\<rparr>"
  let ?s2 = "?s1\<lparr>calls := calls ?s1 @ [HttpGet PROJECTS]\<rparr>"
  obtain r s3 where search: "search_projects e projectName ps ?s2 = (r, s3)"
    by (cases "search_projects e projectName ps ?s2") blast
  have get: "getProjectIdByName e projectName ?s1 = (r, s3)"
    using getProjectIdByName_run [of projectName e ?s1 allProjects ps] assms search by simp
  note run = resolveProject_run [OF get]
  from search_projects_cases [OF search]
  show "(\<forall>p \<in> set ps. name_matches e p projectName = Inr False)
            \<or> (\<exists>pre p post i.
                  ps = pre @ p # post
                \<and> (\<forall>q \<in> set pre. name_matches e q projectName = Inr False)
                \<and> name_matches e p projectName = Inr True
                \<and> get_prop p ''id'' = Inr i \<and> \<not> truthy i)"
  proof (elim disjE exE conjE)
    assume "\<forall>p \<in> set ps. name_matches e p projectName = Inr False"
    then show ?thesis by blast
  next
    fix pre p post' i
    assume b: "r = Inr ()" "s3 = ?s2\<lparr>projectId := i\<rparr>" "ps = pre @ p # post'"
      "\<forall>q \<in> set pre. name_matches e q projectName = Inr False"
      "name_matches e p projectName = Inr True" "get_prop p ''id'' = Inr i"
    have "\<not> truthy i"
    proof
      assume "truthy i"
      then have "calls (snd (resolveProject e projectName s)) = calls s @ [HttpGet PROJECTS]"
        using run b(1,2) by simp
      with tr have "new = [HttpGet PROJECTS]" by simp
      with post show False by simp
    qed
    with b show ?thesis by blast
  next
    fix err
    assume "r = Inl err" "s3 = ?s2"
    then have "calls (snd (resolveProject e projectName s)) = calls s @ [HttpGet PROJECTS]"
      using run by simp
    with tr have "new = [HttpGet PROJECTS]" by simp
    with post show ?thesis by simp
  qed
qed

text \<open>
  Claim C10. The collection holds one project, whose name is the requested one and whose
  \<open>id\<close> is the empty string. The name matches and the client binds that \<open>id\<close>; it
  then takes the empty identifier for "no project found", logs that the project was not
  found and creates a second project of the same name.
\<close>

theorem matching_project_with_empty_id_is_recreated:
  "name_matches (example_env (example_server (JArr [project_entry [] ''webgoat''])) 3)
      (project_entry [] ''webgoat'') ''webgoat'' = Inr True
   \<and> resolveProject (example_env (example_server (JArr [project_entry [] ''webgoat''])) 3)
        ''webgoat'' new_client
     = (Inr (),
        new_client\<lparr>projectId := JStr ''p-new'',
          logged := [(Info, ''Resolving project by name: webgoat''),
                     (Info, ''Project not found, creating a new one.''),
                     (Info, ''Created a project with ID: p-new'')],
          calls := [HttpGet ''/risk-management/projects'',
                    HttpPost ''/risk-management/projects'' (JObj [(''name'', JStr ''webgoat'')])]\<rparr>)"
  by (simp add: resolveProject_def getProjectIdByName_def getAllProjects_def createProject_def
        name_matches_def literal_match_def monad_defs example_defs)

end
